theory Spec2Isabelle
  imports Complex_Main
begin

section \<open>Python values and the library operations the code relies on\<close>

text \<open>
  The activity mapper receives an object typed \<^verbatim>\<open>Any\<close>. Its attributes can hold any
  Python value; the kinds that matter to the code are modelled here. Floats are modelled
  as exact reals (rounding, infinities and NaN are abstracted away). A \<^verbatim>\<open>timedelta\<close> is
  represented by the value of its \<^verbatim>\<open>total_seconds()\<close>, a \<^verbatim>\<open>datetime\<close> by the text of its
  \<^verbatim>\<open>isoformat()\<close>. \<open>PObj\<close> is an object with exactly the listed instance attributes
  (stravalib's \<^verbatim>\<open>RelaxedActivityType\<close> is an object with the single attribute \<^verbatim>\<open>root\<close>);
  \<open>PDict\<close> is a \<^verbatim>\<open>dict\<close> with string keys, in insertion order.
\<close>

datatype pyval =
    PNone
  | PBool bool
  | PInt int
  | PFloat real
  | PStr string
  | PTimedelta real
  | PDatetime string
  | PObj "(string \<times> pyval) list"
  | PDict "(string \<times> pyval) list"

datatype error =
    FileNotFoundError
  | JSONDecodeError
  | ValueError
  | AttributeError
  | TypeError
  | KeyError
  | OSError
  | RemoteFault

text \<open>
  Text conversions of the Python runtime that the code calls but does not define:
  \<^verbatim>\<open>int(s)\<close> and \<^verbatim>\<open>float(s)\<close> on a string (\<open>None\<close> stands for the \<^verbatim>\<open>ValueError\<close> they
  raise on text that is not a number) and \<^verbatim>\<open>str(v)\<close> on a value that is not a string.
  They are taken as parameters.
\<close>

record pylib =
  int_of_str :: "string \<Rightarrow> int option"
  float_of_str :: "string \<Rightarrow> real option"
  str_of :: "pyval \<Rightarrow> string"

text \<open>Truth value testing: \<^verbatim>\<open>bool(v)\<close>.\<close>

fun truthy :: "pyval \<Rightarrow> bool" where
  "truthy PNone = False"
| "truthy (PBool b) = b"
| "truthy (PInt n) = (n \<noteq> 0)"
| "truthy (PFloat x) = (x \<noteq> 0)"
| "truthy (PStr s) = (s \<noteq> [])"
| "truthy (PTimedelta x) = (x \<noteq> 0)"
| "truthy (PDatetime d) = True"
| "truthy (PObj kvs) = True"
| "truthy (PDict kvs) = (kvs \<noteq> [])"

text \<open>\<^verbatim>\<open>int(x)\<close> on a float truncates toward zero.\<close>

definition trunc_toward_zero :: "real \<Rightarrow> int" where
  "trunc_toward_zero x = (if 0 \<le> x then \<lfloor>x\<rfloor> else \<lceil>x\<rceil>)"

fun py_int :: "pylib \<Rightarrow> pyval \<Rightarrow> error + int" where
  "py_int L (PBool b) = Inr (if b then 1 else 0)"
| "py_int L (PInt n) = Inr n"
| "py_int L (PFloat x) = Inr (trunc_toward_zero x)"
| "py_int L (PStr s) = (case int_of_str L s of None \<Rightarrow> Inl ValueError | Some n \<Rightarrow> Inr n)"
| "py_int L v = Inl TypeError"

fun py_float :: "pylib \<Rightarrow> pyval \<Rightarrow> error + real" where
  "py_float L (PBool b) = Inr (if b then 1 else 0)"
| "py_float L (PInt n) = Inr (real_of_int n)"
| "py_float L (PFloat x) = Inr x"
| "py_float L (PStr s) = (case float_of_str L s of None \<Rightarrow> Inl ValueError | Some x \<Rightarrow> Inr x)"
| "py_float L v = Inl TypeError"

fun py_str :: "pylib \<Rightarrow> pyval \<Rightarrow> string" where
  "py_str L (PStr s) = s"
| "py_str L v = str_of L v"

text \<open>
  Attribute access. \<open>attr v n\<close> is \<open>None\<close> when \<^verbatim>\<open>v.n\<close> raises \<^verbatim>\<open>AttributeError\<close>
  (equivalently, when \<^verbatim>\<open>hasattr(v, n)\<close> is false). Only the attribute names the code reads
  are covered: the fields of an activity, \<^verbatim>\<open>root\<close> and \<^verbatim>\<open>total_seconds\<close>. A \<^verbatim>\<open>dict\<close>, a
  number, a string, \<^verbatim>\<open>None\<close> and a \<^verbatim>\<open>datetime\<close> have none of them; the method
  \<^verbatim>\<open>total_seconds\<close> of a \<^verbatim>\<open>timedelta\<close> is handled in \<open>get_seconds\<close>.
\<close>

fun attr :: "pyval \<Rightarrow> string \<Rightarrow> pyval option" where
  "attr (PObj kvs) n = map_of kvs n"
| "attr v n = None"

definition getattr :: "pyval \<Rightarrow> string \<Rightarrow> error + pyval" where
  "getattr v n = (case attr v n of None \<Rightarrow> Inl AttributeError | Some x \<Rightarrow> Inr x)"

definition getattr_default :: "pyval \<Rightarrow> string \<Rightarrow> pyval \<Rightarrow> pyval" where
  "getattr_default v n d = (case attr v n of None \<Rightarrow> d | Some x \<Rightarrow> x)"

text \<open>Sequencing of a computation that may raise.\<close>

definition bind :: "error + 'a \<Rightarrow> ('a \<Rightarrow> error + 'b) \<Rightarrow> error + 'b" where
  "bind m f = (case m of Inl e \<Rightarrow> Inl e | Inr x \<Rightarrow> f x)"

section \<open>models.py: the Activity record\<close>

text \<open>
  The dataclass declares field types but does not check them: a field holds whatever the
  constructor was given. Fields that \<^verbatim>\<open>from_strava_activity\<close> copies from the payload are
  therefore of type \<open>pyval\<close>; fields it converts have the type of the conversion.
\<close>

record activity =
  id_field :: pyval
  name :: pyval
  type_field :: pyval
  distance :: real
  moving_time :: int
  elapsed_time :: int
  total_elevation_gain :: real
  start_date :: pyval
  start_date_local :: pyval
  average_speed :: "real option"
  max_speed :: "real option"
  average_heartrate :: "real option"
  max_heartrate :: "real option"
  description :: pyval
  calories :: "real option"
  gear_id :: pyval
  trainer :: pyval
  commute :: pyval
  private_field :: pyval

text \<open>The nested helper \<^verbatim>\<open>get_seconds\<close> of \<^verbatim>\<open>from_strava_activity\<close>.\<close>

fun get_seconds :: "pylib \<Rightarrow> pyval \<Rightarrow> error + int" where
  "get_seconds L PNone = Inr 0"
| "get_seconds L (PTimedelta x) = Inr (trunc_toward_zero x)"
| "get_seconds L (PObj kvs) =
     (case map_of kvs ''total_seconds'' of
        Some m \<Rightarrow> Inl TypeError
      | None \<Rightarrow> py_int L (PObj kvs))"
| "get_seconds L v = py_int L v"

text \<open>\<^verbatim>\<open>float(x) if x else 0.0\<close> and \<^verbatim>\<open>float(x) if x else None\<close>.\<close>

definition float_or_zero :: "pylib \<Rightarrow> pyval \<Rightarrow> error + real" where
  "float_or_zero L x = (if truthy x then py_float L x else Inr 0)"

definition float_or_none :: "pylib \<Rightarrow> pyval \<Rightarrow> error + real option" where
  "float_or_none L x = (if truthy x then bind (py_float L x) (\<lambda>y. Inr (Some y)) else Inr None)"

text \<open>
  \<^verbatim>\<open>Activity.from_strava_activity\<close>. The attribute reads and conversions happen in the
  order of the source, so the first one that raises decides the exception.
\<close>

definition from_strava_activity :: "pylib \<Rightarrow> pyval \<Rightarrow> error + activity" where
  "from_strava_activity L a =
     bind (getattr a ''type'') (\<lambda>t.
     let activity_type = (case attr t ''root'' of Some r \<Rightarrow> r | None \<Rightarrow> PStr (py_str L t)) in
     bind (getattr a ''id'') (\<lambda>v_id.
     bind (getattr a ''name'') (\<lambda>v_name.
     bind (getattr a ''distance'') (\<lambda>d.
     bind (float_or_zero L d) (\<lambda>v_distance.
     bind (getattr a ''moving_time'') (\<lambda>mt.
     bind (get_seconds L mt) (\<lambda>v_moving.
     bind (getattr a ''elapsed_time'') (\<lambda>et.
     bind (get_seconds L et) (\<lambda>v_elapsed.
     bind (getattr a ''total_elevation_gain'') (\<lambda>eg.
     bind (float_or_zero L eg) (\<lambda>v_gain.
     bind (getattr a ''start_date'') (\<lambda>v_start.
     bind (getattr a ''start_date_local'') (\<lambda>v_local.
     bind (getattr a ''average_speed'') (\<lambda>s1.
     bind (float_or_none L s1) (\<lambda>v_avg_speed.
     bind (getattr a ''max_speed'') (\<lambda>s2.
     bind (float_or_none L s2) (\<lambda>v_max_speed.
     bind (getattr a ''average_heartrate'') (\<lambda>h1.
     bind (float_or_none L h1) (\<lambda>v_avg_hr.
     bind (getattr a ''max_heartrate'') (\<lambda>h2.
     bind (float_or_none L h2) (\<lambda>v_max_hr.
     bind (float_or_none L (getattr_default a ''calories'' PNone)) (\<lambda>v_calories.
     Inr \<lparr> id_field = v_id, name = v_name, type_field = activity_type,
           distance = v_distance, moving_time = v_moving, elapsed_time = v_elapsed,
           total_elevation_gain = v_gain, start_date = v_start, start_date_local = v_local,
           average_speed = v_avg_speed, max_speed = v_max_speed,
           average_heartrate = v_avg_hr, max_heartrate = v_max_hr,
           description = getattr_default a ''description'' PNone,
           calories = v_calories,
           gear_id = getattr_default a ''gear_id'' PNone,
           trainer = getattr_default a ''trainer'' (PBool False),
           commute = getattr_default a ''commute'' (PBool False),
           private_field = getattr_default a ''private'' (PBool False) \<rparr>))))))))))))))))))))))"

text \<open>
  \<^verbatim>\<open>x.isoformat()\<close>: defined on a \<^verbatim>\<open>datetime\<close>. An object whose attribute of that name
  is a plain value cannot be called; any other value has no such attribute.
\<close>

fun isoformat :: "pyval \<Rightarrow> error + pyval" where
  "isoformat (PDatetime d) = Inr (PStr d)"
| "isoformat (PObj kvs) =
     (case map_of kvs ''isoformat'' of Some m \<Rightarrow> Inl TypeError | None \<Rightarrow> Inl AttributeError)"
| "isoformat v = Inl AttributeError"

text \<open>\<^verbatim>\<open>Activity.to_dict\<close>; an optional metric is \<^verbatim>\<open>None\<close> or a float.\<close>

definition opt_float :: "real option \<Rightarrow> pyval" where
  "opt_float x = (case x of None \<Rightarrow> PNone | Some y \<Rightarrow> PFloat y)"

definition to_dict :: "activity \<Rightarrow> error + pyval" where
  "to_dict self =
     bind (isoformat (start_date self)) (\<lambda>sd.
     bind (isoformat (start_date_local self)) (\<lambda>sdl.
     Inr (PDict
       [(''id'', id_field self),
        (''name'', name self),
        (''type'', type_field self),
        (''distance'', PFloat (distance self)),
        (''moving_time'', PInt (moving_time self)),
        (''elapsed_time'', PInt (elapsed_time self)),
        (''total_elevation_gain'', PFloat (total_elevation_gain self)),
        (''start_date'', sd),
        (''start_date_local'', sdl),
        (''average_speed'', opt_float (average_speed self)),
        (''max_speed'', opt_float (max_speed self)),
        (''average_heartrate'', opt_float (average_heartrate self)),
        (''max_heartrate'', opt_float (max_heartrate self)),
        (''description'', description self),
        (''calories'', opt_float (calories self)),
        (''gear_id'', gear_id self),
        (''trainer'', trainer self),
        (''commute'', commute self),
        (''private'', private_field self)])))"

section \<open>client.py: token management\<close>

text \<open>
  The token file holds JSON; \<^verbatim>\<open>json.load\<close> turns it into the Python values below, and
  stravalib's \<^verbatim>\<open>refresh_access_token\<close> returns a \<^verbatim>\<open>dict\<close> decoded from a JSON response.
\<close>

datatype json =
    JNull
  | JBool bool
  | JInt int
  | JFloat real
  | JStr string
  | JArr "json list"
  | JObj "(string \<times> json) list"

fun json_truthy :: "json \<Rightarrow> bool" where
  "json_truthy JNull = False"
| "json_truthy (JBool b) = b"
| "json_truthy (JInt n) = (n \<noteq> 0)"
| "json_truthy (JFloat x) = (x \<noteq> 0)"
| "json_truthy (JStr s) = (s \<noteq> [])"
| "json_truthy (JArr xs) = (xs \<noteq> [])"
| "json_truthy (JObj kvs) = (kvs \<noteq> [])"

text \<open>\<^verbatim>\<open>x - 300\<close>: defined on numbers (a \<^verbatim>\<open>bool\<close> is an \<^verbatim>\<open>int\<close>), \<^verbatim>\<open>TypeError\<close> otherwise.\<close>

fun minus_300 :: "json \<Rightarrow> error + real" where
  "minus_300 (JBool b) = Inr ((if b then 1 else 0) - 300)"
| "minus_300 (JInt n) = Inr (real_of_int n - 300)"
| "minus_300 (JFloat x) = Inr (x - 300)"
| "minus_300 v = Inl TypeError"

text \<open>\<^verbatim>\<open>d.get(k)\<close> on a \<^verbatim>\<open>dict\<close>: \<^verbatim>\<open>None\<close> when the key is absent.\<close>

definition dict_get :: "(string \<times> json) list \<Rightarrow> string \<Rightarrow> json" where
  "dict_get kvs k = (case map_of kvs k of None \<Rightarrow> JNull | Some v \<Rightarrow> v)"

text \<open>
  The text of a file is either a JSON document, represented by the value it parses to, or
  text that is not a JSON document (the empty file among them).
\<close>

datatype file_text = JsonText json | RawText string

fun json_load :: "file_text \<Rightarrow> error + json" where
  "json_load (JsonText v) = Inr v"
| "json_load (RawText s) = Inl JSONDecodeError"

text \<open>
  What can go wrong while the token file is rewritten is decided by the environment:
  \<open>OpenFails\<close> makes \<^verbatim>\<open>open(path, "w")\<close> raise before it touches the file; \<open>DumpFails s\<close>
  makes \<^verbatim>\<open>json.dump\<close> raise after the text \<open>s\<close>, a proper prefix of the document, has
  reached the file (a proper prefix of a JSON object is not a JSON document).
\<close>

datatype write_fault = NoFault | OpenFails | DumpFails string

text \<open>
  The world outside the process: the files, the environment variables (after
  \<^verbatim>\<open>load_dotenv()\<close>), the value \<^verbatim>\<open>time.time()\<close> returns, the remote token endpoint behind
  stravalib's \<^verbatim>\<open>refresh_access_token\<close> (client id, client secret, refresh token), the
  fault of the next write, and the log of the calls made to the endpoint.
\<close>

record world =
  files :: "string \<Rightarrow> file_text option"
  environ :: "string \<Rightarrow> string option"
  now :: real
  remote :: "int \<Rightarrow> string \<Rightarrow> json \<Rightarrow> error + (string \<times> json) list"
  fault :: write_fault
  calls :: "(int \<times> string \<times> json) list"

record strava_client =
  token_file :: string
  access_token :: "json option"

text \<open>\<^verbatim>\<open>open(path, "w")\<close> truncates the file; \<^verbatim>\<open>json.dump\<close> then writes into it.\<close>

definition open_w :: "string \<Rightarrow> world \<Rightarrow> error + world" where
  "open_w p w =
     (if fault w = OpenFails then Inl OSError
      else Inr (w\<lparr>files := (files w)(p \<mapsto> RawText [])\<rparr>))"

definition json_dump :: "json \<Rightarrow> string \<Rightarrow> world \<Rightarrow> error option \<times> world" where
  "json_dump v p w =
     (case fault w of
        DumpFails s \<Rightarrow> (Some OSError, w\<lparr>files := (files w)(p \<mapsto> RawText s)\<rparr>)
      | _ \<Rightarrow> (None, w\<lparr>files := (files w)(p \<mapsto> JsonText v)\<rparr>))"

text \<open>
  \<^verbatim>\<open>StravaClient._refresh_token\<close>. The result pairs the outcome (the exception raised, or
  the client with its access token set) with the world afterwards: what was written
  before an exception stays written.
\<close>

definition refresh_token ::
  "pylib \<Rightarrow> strava_client \<Rightarrow> json \<Rightarrow> world \<Rightarrow> (error + strava_client) \<times> world" where
  "refresh_token L self rt w =
     (case (environ w ''STRAVA_CLIENT_ID'', environ w ''STRAVA_CLIENT_SECRET'') of
        (Some client_id, Some client_secret) \<Rightarrow>
          if client_id = [] \<or> client_secret = [] then (Inl ValueError, w)
          else (case int_of_str L client_id of
             None \<Rightarrow> (Inl ValueError, w)
           | Some cid \<Rightarrow>
               let w1 = w\<lparr>calls := calls w @ [(cid, client_secret, rt)]\<rparr> in
               (case remote w cid client_secret rt of
                  Inl e \<Rightarrow> (Inl e, w1)
                | Inr token_response \<Rightarrow>
                    (case open_w (token_file self) w1 of
                       Inl e \<Rightarrow> (Inl e, w1)
                     | Inr w2 \<Rightarrow>
                         (case json_dump (JObj token_response) (token_file self) w2 of
                            (Some e, w3) \<Rightarrow> (Inl e, w3)
                          | (None, w3) \<Rightarrow>
                              (case map_of token_response ''access_token'' of
                                 None \<Rightarrow> (Inl KeyError, w3)
                               | Some t \<Rightarrow> (Inr (self\<lparr>access_token := Some t\<rparr>), w3))))))
      | _ \<Rightarrow> (Inl ValueError, w))"

text \<open>
  \<^verbatim>\<open>StravaClient._load_and_set_token\<close>. \<^verbatim>\<open>data.get\<close> exists on a \<^verbatim>\<open>dict\<close> only; on any
  other parsed document the attribute lookup raises \<^verbatim>\<open>AttributeError\<close>.
\<close>

definition load_and_set_token ::
  "pylib \<Rightarrow> strava_client \<Rightarrow> world \<Rightarrow> (error + strava_client) \<times> world" where
  "load_and_set_token L self w =
     (case files w (token_file self) of
        None \<Rightarrow> (Inl FileNotFoundError, w)
      | Some txt \<Rightarrow>
          (case json_load txt of
             Inl e \<Rightarrow> (Inl e, w)
           | Inr (JObj data) \<Rightarrow>
               let access = dict_get data ''access_token'';
                   refresh = dict_get data ''refresh_token'';
                   expires_at = dict_get data ''expires_at''
               in if \<not> json_truthy access \<or> \<not> json_truthy refresh then (Inl ValueError, w)
                  else if json_truthy expires_at then
                    (case minus_300 expires_at of
                       Inl e \<Rightarrow> (Inl e, w)
                     | Inr limit \<Rightarrow>
                         if now w > limit then refresh_token L self refresh w
                         else (Inr (self\<lparr>access_token := Some access\<rparr>), w))
                  else (Inr (self\<lparr>access_token := Some access\<rparr>), w)
           | Inr other \<Rightarrow> (Inl AttributeError, w)))"

text \<open>\<^verbatim>\<open>StravaClient.__init__\<close>; the argument is \<^verbatim>\<open>None\<close> or a path.\<close>

definition StravaClient ::
  "pylib \<Rightarrow> string option \<Rightarrow> world \<Rightarrow> (error + strava_client) \<times> world" where
  "StravaClient L tf w =
     load_and_set_token L
       \<lparr>token_file = (case tf of None \<Rightarrow> ''strava-token.json'' | Some p \<Rightarrow> p),
        access_token = None\<rparr> w"

text \<open>
  cli.py, \<^verbatim>\<open>get_client\<close>: a \<^verbatim>\<open>FileNotFoundError\<close> or a \<^verbatim>\<open>ValueError\<close> (which
  \<^verbatim>\<open>json.JSONDecodeError\<close> is a subclass of) is reported and turned into an abort; any
  other exception propagates.
\<close>

definition is_ValueError :: "error \<Rightarrow> bool" where
  "is_ValueError e = (e = ValueError \<or> e = JSONDecodeError)"

datatype 'a cli_result = Returned 'a | Abort | Uncaught error

definition get_client ::
  "pylib \<Rightarrow> string option \<Rightarrow> world \<Rightarrow> strava_client cli_result \<times> world" where
  "get_client L tf w =
     (case StravaClient L (case tf of None \<Rightarrow> None | Some p \<Rightarrow> if p \<noteq> [] then Some p else None) w of
        (Inr c, w') \<Rightarrow> (Returned c, w')
      | (Inl e, w') \<Rightarrow>
          if e = FileNotFoundError \<or> is_ValueError e then (Abort, w') else (Uncaught e, w'))"

section \<open>Concrete inputs\<close>

text \<open>
  A Python runtime whose \<^verbatim>\<open>int\<close> reads the text \<^verbatim>\<open>12345\<close> and nothing else; enough for
  the concrete runs below.
\<close>

definition lib0 :: pylib where
  "lib0 = \<lparr>int_of_str = (\<lambda>s. if s = ''12345'' then Some 12345 else None),
           float_of_str = (\<lambda>s. None),
           str_of = (\<lambda>v. [])\<rparr>"

text \<open>
  An activity as stravalib hands it over: wrapped type, a \<^verbatim>\<open>timedelta\<close> moving time of
  3661 seconds, a raw integer elapsed time of 3661, no \<^verbatim>\<open>calories\<close> attribute.
\<close>

definition payload_rest :: "pyval \<Rightarrow> (string \<times> pyval) list \<Rightarrow> (string \<times> pyval) list" where
  "payload_rest v_speed extra =
     [(''type'', PObj [(''root'', PStr ''Run'')]),
      (''distance'', PFloat 5000),
      (''moving_time'', PTimedelta 3661),
      (''elapsed_time'', PInt 3661),
      (''total_elevation_gain'', PFloat 123.4),
      (''start_date'', PDatetime ''2024-01-01T10:00:00+00:00''),
      (''start_date_local'', PDatetime ''2024-01-01T11:00:00''),
      (''average_speed'', v_speed),
      (''max_speed'', PFloat 3),
      (''average_heartrate'', PNone),
      (''max_heartrate'', PInt 150)] @ extra"

definition payload_with ::
  "pyval \<Rightarrow> pyval \<Rightarrow> pyval \<Rightarrow> (string \<times> pyval) list \<Rightarrow> pyval" where
  "payload_with v_id v_name v_speed extra =
     PObj ((''id'', v_id) # (''name'', v_name) # payload_rest v_speed extra)"

definition record_with :: "pyval \<Rightarrow> pyval \<Rightarrow> real option \<Rightarrow> activity" where
  "record_with v_id v_name v_speed =
     \<lparr>id_field = v_id, name = v_name, type_field = PStr ''Run'',
      distance = 5000, moving_time = 3661, elapsed_time = 3661,
      total_elevation_gain = 123.4,
      start_date = PDatetime ''2024-01-01T10:00:00+00:00'',
      start_date_local = PDatetime ''2024-01-01T11:00:00'',
      average_speed = v_speed, max_speed = Some 3,
      average_heartrate = None, max_heartrate = Some 150,
      description = PNone, calories = None, gear_id = PNone,
      trainer = PBool False, commute = PBool False, private_field = PBool False\<rparr>"

definition run_payload :: pyval where
  "run_payload = payload_with (PInt 7) (PStr ''Morning Run'') (PFloat 2.5) []"

definition run_record :: activity where
  "run_record = record_with (PInt 7) (PStr ''Morning Run'') (Some 2.5)"

text \<open>The same activity with identity fields of the wrong kind.\<close>

definition wrong_kind_payload :: pyval where
  "wrong_kind_payload = payload_with (PStr ''seven'') PNone (PFloat 2.5) []"

definition wrong_kind_record :: activity where
  "wrong_kind_record = record_with (PStr ''seven'') PNone (Some 2.5)"

text \<open>
  The same activity reporting an average speed of zero and zero calories, and reporting
  neither (\<^verbatim>\<open>None\<close> for the speed, no \<^verbatim>\<open>calories\<close> attribute).
\<close>

definition zero_metrics_payload :: pyval where
  "zero_metrics_payload =
     payload_with (PInt 7) (PStr ''Morning Run'') (PFloat 0) [(''calories'', PInt 0)]"

definition unreported_metrics_payload :: pyval where
  "unreported_metrics_payload = payload_with (PInt 7) (PStr ''Morning Run'') PNone []"

definition unreported_metrics_record :: activity where
  "unreported_metrics_record = record_with (PInt 7) (PStr ''Morning Run'') None"

text \<open>The entries \<^verbatim>\<open>to_dict\<close> produces for a record whose dates render as \<open>d1\<close> and \<open>d2\<close>.\<close>

definition transport_entries :: "activity \<Rightarrow> string \<Rightarrow> string \<Rightarrow> (string \<times> pyval) list" where
  "transport_entries r d1 d2 =
     [(''id'', id_field r),
      (''name'', name r),
      (''type'', type_field r),
      (''distance'', PFloat (distance r)),
      (''moving_time'', PInt (moving_time r)),
      (''elapsed_time'', PInt (elapsed_time r)),
      (''total_elevation_gain'', PFloat (total_elevation_gain r)),
      (''start_date'', PStr d1),
      (''start_date_local'', PStr d2),
      (''average_speed'', opt_float (average_speed r)),
      (''max_speed'', opt_float (max_speed r)),
      (''average_heartrate'', opt_float (average_heartrate r)),
      (''max_heartrate'', opt_float (max_heartrate r)),
      (''description'', description r),
      (''calories'', opt_float (calories r)),
      (''gear_id'', gear_id r),
      (''trainer'', trainer r),
      (''commute'', commute r),
      (''private'', private_field r)]"

text \<open>
  A client using the default token file, a token file holding the given object, an
  environment with both secrets set, and a token endpoint that answers every call with
  the same fresh triple. The clock reads 1700000000.
\<close>

definition client0 :: strava_client where
  "client0 = \<lparr>token_file = ''strava-token.json'', access_token = None\<rparr>"

definition stored_tokens :: "(string \<times> json) list \<Rightarrow> (string \<times> json) list" where
  "stored_tokens expiry =
     [(''access_token'', JStr ''old-access''), (''refresh_token'', JStr ''old-refresh'')]
     @ expiry"

definition fresh_triple :: "(string \<times> json) list" where
  "fresh_triple =
     [(''access_token'', JStr ''new-access''),
      (''refresh_token'', JStr ''new-refresh''),
      (''expires_at'', JInt 1700021600)]"

definition world_with :: "file_text option \<Rightarrow> write_fault \<Rightarrow> world" where
  "world_with content f =
     \<lparr>files = (\<lambda>p. if p = ''strava-token.json'' then content else None),
      environ = [''STRAVA_CLIENT_ID'' \<mapsto> ''12345'', ''STRAVA_CLIENT_SECRET'' \<mapsto> ''s3cret''],
      now = 1700000000,
      remote = (\<lambda>cid secret rt. Inr fresh_triple),
      fault = f,
      calls = []\<rparr>"

definition token_world :: "(string \<times> json) list \<Rightarrow> write_fault \<Rightarrow> world" where
  "token_world expiry f = world_with (Some (JsonText (JObj (stored_tokens expiry)))) f"

text \<open>
  The example activity with its two durations left open, so that either duration can
  arrive as a \<^verbatim>\<open>timedelta\<close> or as a raw number.
\<close>

definition other_attributes :: "(string \<times> pyval) list" where
  "other_attributes =
     [(''id'', PInt 7),
      (''name'', PStr ''Morning Run''),
      (''type'', PObj [(''root'', PStr ''Run'')]),
      (''distance'', PFloat 5000),
      (''total_elevation_gain'', PFloat 123.4),
      (''start_date'', PDatetime ''2024-01-01T10:00:00+00:00''),
      (''start_date_local'', PDatetime ''2024-01-01T11:00:00''),
      (''average_speed'', PFloat 2.5),
      (''max_speed'', PFloat 3),
      (''average_heartrate'', PNone),
      (''max_heartrate'', PInt 150)]"

definition timed_payload :: "pyval \<Rightarrow> pyval \<Rightarrow> pyval" where
  "timed_payload v_moving v_elapsed =
     PObj ((''moving_time'', v_moving) # (''elapsed_time'', v_elapsed) # other_attributes)"

text \<open>
  A world for a refresh attempt: the token file holds the stored tokens, the environment
  and the answer of the token endpoint are given.
\<close>

definition secrets_set :: "string \<Rightarrow> string option" where
  "secrets_set = [''STRAVA_CLIENT_ID'' \<mapsto> ''12345'', ''STRAVA_CLIENT_SECRET'' \<mapsto> ''s3cret'']"

definition refresh_world ::
  "(string \<Rightarrow> string option) \<Rightarrow> error + (string \<times> json) list \<Rightarrow> write_fault \<Rightarrow> world" where
  "refresh_world env answer f =
     \<lparr>files = (\<lambda>p. if p = ''strava-token.json''
                   then Some (JsonText (JObj (stored_tokens []))) else None),
      environ = env,
      now = 1700000000,
      remote = (\<lambda>cid secret rt. answer),
      fault = f,
      calls = []\<rparr>"

section \<open>Basic facts\<close>

lemma bind_Inr_iff: "bind m f = Inr y \<longleftrightarrow> (\<exists>x. m = Inr x \<and> f x = Inr y)"
  by (cases m) (simp_all add: bind_def)

lemma getattr_Inr_iff: "getattr a n = Inr v \<longleftrightarrow> attr a n = Some v"
  by (cases "attr a n") (simp_all add: getattr_def)

lemma from_strava_activity_payload_with:
  "from_strava_activity lib0 (payload_with v_id v_name v_speed []) =
     bind (float_or_none lib0 v_speed) (\<lambda>s. Inr (record_with v_id v_name s))"
proof -
  have others: "float_or_none lib0 (PFloat 3) = Inr (Some 3)"
    "float_or_none lib0 PNone = Inr None"
    "float_or_none lib0 (PInt 150) = Inr (Some 150)"
    by (simp_all add: float_or_none_def bind_def)
  show ?thesis
    by (cases "float_or_none lib0 v_speed")
       (simp_all add: from_strava_activity_def payload_with_def payload_rest_def
          record_with_def getattr_def
          getattr_default_def bind_def float_or_zero_def others trunc_toward_zero_def)
qed

lemma from_strava_activity_run_payload: "from_strava_activity lib0 run_payload = Inr run_record"
  by (simp add: run_payload_def run_record_def from_strava_activity_payload_with
      float_or_none_def bind_def)

lemma trunc_toward_zero_sgn:
  "real_of_int (trunc_toward_zero x) = sgn x * real_of_int \<lfloor>\<bar>x\<bar>\<rfloor>"
proof (cases "0 \<le> x")
  case True
  then show ?thesis
    by (cases "x = 0") (simp_all add: trunc_toward_zero_def)
next
  case False
  then have "\<lceil>x\<rceil> = - \<lfloor>- x\<rfloor>" "\<bar>x\<bar> = - x" "sgn x = - 1"
    by (simp_all add: ceiling_def)
  with False show ?thesis
    by (simp add: trunc_toward_zero_def)
qed

lemma from_strava_activity_times:
  assumes "from_strava_activity L a = Inr r"
  shows "\<exists>v. attr a ''moving_time'' = Some v \<and> get_seconds L v = Inr (moving_time r)"
    and "\<exists>v. attr a ''elapsed_time'' = Some v \<and> get_seconds L v = Inr (elapsed_time r)"
  using assms
  by (auto simp: from_strava_activity_def bind_Inr_iff getattr_Inr_iff Let_def)

section \<open>Duration normalization\<close>

lemma from_strava_activity_any_times:
  assumes "from_strava_activity L (PObj ((''moving_time'', v1) # (''elapsed_time'', v2) # kvs))
             = Inr r"
    and "get_seconds L v1' = Inr m" and "get_seconds L v2' = Inr e"
  shows "from_strava_activity L (PObj ((''moving_time'', v1') # (''elapsed_time'', v2') # kvs))
           = Inr (r\<lparr>moving_time := m, elapsed_time := e\<rparr>)"
  using assms
  by (auto simp: from_strava_activity_def bind_Inr_iff getattr_Inr_iff getattr_default_def
      Let_def)

lemma from_strava_activity_timed_payload:
  assumes "get_seconds L v1 = Inr m" and "get_seconds L v2 = Inr e"
  shows "from_strava_activity L (timed_payload v1 v2) =
           Inr (run_record\<lparr>moving_time := m, elapsed_time := e\<rparr>)"
proof -
  have others: "float_or_none L (PFloat (5 / 2)) = Inr (Some (5 / 2))"
    "float_or_none L (PFloat 3) = Inr (Some 3)"
    "float_or_none L PNone = Inr None"
    "float_or_none L (PInt 150) = Inr (Some 150)"
    by (simp_all add: float_or_none_def bind_def)
  show ?thesis
    using assms
    by (simp add: from_strava_activity_def timed_payload_def other_attributes_def
        run_record_def record_with_def getattr_def getattr_default_def bind_def
        float_or_zero_def others)
qed

lemma get_seconds_3661: "get_seconds L (PTimedelta 3661) = Inr 3661"
  by (simp add: trunc_toward_zero_def)

text \<open>
  C9. \<^verbatim>\<open>get_seconds\<close> accepts a raw integer count of seconds and returns it, and accepts
  a structured duration, or a raw float, and returns its total seconds truncated toward
  zero (the sign of the duration times the floor of its magnitude). A duration of 3661
  seconds and the integer 3661 both give 3661. Normalization accepts both forms, in
  \<open>moving_time\<close> and in \<open>elapsed_time\<close>: the example activity normalizes with an integer
  and with a structured duration in either field, to a record holding the whole seconds,
  and with 3661 seconds in both forms to \<open>moving_time = 3661\<close>; and any payload
  that normalizes still normalizes when its two durations are replaced by values
  \<^verbatim>\<open>get_seconds\<close> accepts, with exactly those two fields of the record changed. Whenever
  normalization succeeds the record's \<open>moving_time\<close> and \<open>elapsed_time\<close> are
  \<^verbatim>\<open>get_seconds\<close> of the payload's attributes.
\<close>

theorem duration_normalization:
  "get_seconds L (PInt n) = Inr n
   \<and> get_seconds L (PTimedelta x) = Inr (trunc_toward_zero x)
   \<and> get_seconds L (PFloat x) = Inr (trunc_toward_zero x)
   \<and> real_of_int (trunc_toward_zero x) = sgn x * real_of_int \<lfloor>\<bar>x\<bar>\<rfloor>
   \<and> get_seconds L (PTimedelta 3661) = Inr 3661
   \<and> get_seconds L (PInt 3661) = Inr 3661
   \<and> (from_strava_activity L a = Inr r \<longrightarrow>
        (\<exists>v. attr a ''moving_time'' = Some v \<and> get_seconds L v = Inr (moving_time r))
      \<and> (\<exists>v. attr a ''elapsed_time'' = Some v \<and> get_seconds L v = Inr (elapsed_time r)))
   \<and> from_strava_activity L (timed_payload (PInt n) (PTimedelta x)) =
        Inr (run_record\<lparr>moving_time := n, elapsed_time := trunc_toward_zero x\<rparr>)
   \<and> from_strava_activity L (timed_payload (PTimedelta x) (PInt n)) =
        Inr (run_record\<lparr>moving_time := trunc_toward_zero x, elapsed_time := n\<rparr>)
   \<and> from_strava_activity L (timed_payload (PInt 3661) (PTimedelta 3661)) = Inr run_record
   \<and> from_strava_activity L (timed_payload (PTimedelta 3661) (PInt 3661)) = Inr run_record
   \<and> moving_time run_record = 3661
   \<and> (from_strava_activity L (PObj ((''moving_time'', v1) # (''elapsed_time'', v2) # kvs))
         = Inr r'
       \<and> get_seconds L v1' = Inr m \<and> get_seconds L v2' = Inr e \<longrightarrow>
       from_strava_activity L (PObj ((''moving_time'', v1') # (''elapsed_time'', v2') # kvs))
         = Inr (r'\<lparr>moving_time := m, elapsed_time := e\<rparr>))"
proof -
  have int_td: "from_strava_activity L (timed_payload (PInt k) (PTimedelta y)) =
      Inr (run_record\<lparr>moving_time := k, elapsed_time := trunc_toward_zero y\<rparr>)" for k y
    by (rule from_strava_activity_timed_payload) simp_all
  have td_int: "from_strava_activity L (timed_payload (PTimedelta y) (PInt k)) =
      Inr (run_record\<lparr>moving_time := trunc_toward_zero y, elapsed_time := k\<rparr>)" for k y
    by (rule from_strava_activity_timed_payload) simp_all
  have same: "run_record\<lparr>moving_time := 3661, elapsed_time := 3661\<rparr> = run_record"
    by (simp add: run_record_def record_with_def)
  have a: "from_strava_activity L (timed_payload (PInt 3661) (PTimedelta 3661)) = Inr run_record"
    using from_strava_activity_timed_payload [of L "PInt 3661" 3661 "PTimedelta 3661" 3661]
      get_seconds_3661 [of L] same
    by simp
  have b: "from_strava_activity L (timed_payload (PTimedelta 3661) (PInt 3661)) = Inr run_record"
    using from_strava_activity_timed_payload [of L "PTimedelta 3661" 3661 "PInt 3661" 3661]
      get_seconds_3661 [of L] same
    by simp
  have c: "moving_time run_record = 3661"
    by (simp add: run_record_def record_with_def)
  show ?thesis
    using trunc_toward_zero_sgn [of x] from_strava_activity_times [of L a r]
      from_strava_activity_any_times [of L v1 v2 kvs r' v1' m v2' e]
      int_td [of n x] td_int [of x n] a b c get_seconds_3661 [of L]
    by simp
qed

theorem duration_normalization_witness:
  "from_strava_activity lib0 run_payload = Inr run_record
   \<and> attr run_payload ''moving_time'' = Some (PTimedelta 3661)
   \<and> attr run_payload ''elapsed_time'' = Some (PInt 3661)
   \<and> moving_time run_record = 3661 \<and> elapsed_time run_record = 3661
   \<and> get_seconds lib0 (PTimedelta (-2.5)) = Inr (-2)
   \<and> get_seconds lib0 (PTimedelta 2.5) = Inr 2
   \<and> from_strava_activity lib0 (timed_payload (PTimedelta 3661) (PInt 3661)) = Inr run_record
   \<and> from_strava_activity lib0 (timed_payload (PInt 3661) (PTimedelta 3661)) = Inr run_record
   \<and> from_strava_activity lib0 (timed_payload (PInt 125) (PTimedelta 2.5)) =
        Inr (run_record\<lparr>moving_time := 125, elapsed_time := 2\<rparr>)"
proof -
  note inst1 = duration_normalization [of lib0 3661 "2.5" run_payload run_record
      "PTimedelta 3661" "PInt 3661" other_attributes run_record "PInt 125" 125
      "PTimedelta 2.5" 2]
  note inst2 = duration_normalization [of lib0 3661 "-2.5" run_payload run_record
      "PTimedelta 3661" "PInt 3661" other_attributes run_record "PInt 125" 125
      "PTimedelta 2.5" 2]
  have swapped: "from_strava_activity lib0 (timed_payload (PInt 125) (PTimedelta 2.5)) =
        Inr (run_record\<lparr>moving_time := 125, elapsed_time := 2\<rparr>)"
    using inst1 by (simp add: timed_payload_def trunc_toward_zero_def)
  show ?thesis
    using inst1 inst2 from_strava_activity_run_payload swapped
    by (simp add: run_payload_def payload_with_def payload_rest_def run_record_def
        record_with_def trunc_toward_zero_def)
qed

section \<open>Identity fields\<close>

lemma from_strava_activity_identity:
  assumes "from_strava_activity L a = Inr r"
  shows "attr a ''id'' = Some (id_field r)" and "attr a ''name'' = Some (name r)"
  using assms
  by (auto simp: from_strava_activity_def bind_Inr_iff getattr_Inr_iff Let_def)

lemma from_strava_activity_absent_identity:
  assumes "attr a ''id'' = None \<or> attr a ''name'' = None"
  shows "from_strava_activity L a = Inl AttributeError"
  using assms unfolding from_strava_activity_def
  by (cases "attr a ''type''"; cases "attr a ''id''"; cases "attr a ''name''")
     (auto simp: getattr_def bind_def Let_def)

lemma from_strava_activity_any_identity:
  assumes "from_strava_activity L (PObj ((''id'', v1) # (''name'', v2) # kvs)) = Inr r"
  shows "from_strava_activity L (PObj ((''id'', v1') # (''name'', v2') # kvs)) =
           Inr (r\<lparr>id_field := v1', name := v2'\<rparr>)"
  using assms
  by (auto simp: from_strava_activity_def bind_Inr_iff getattr_Inr_iff getattr_default_def
      Let_def)

text \<open>
  C2, amended. Normalization has no check on the kind of \<^verbatim>\<open>id\<close> and \<^verbatim>\<open>name\<close>. When the
  payload has no attribute \<^verbatim>\<open>id\<close> or no attribute \<^verbatim>\<open>name\<close>, normalization fails, with the
  \<^verbatim>\<open>AttributeError\<close> of the attribute read. When both are present they are copied into the
  record as they are, and whether normalization succeeds does not depend on their values:
  replacing them by values of any kind gives the same record with those values in it.
\<close>

theorem identity_fields_unchecked:
  "(attr a ''id'' = None \<or> attr a ''name'' = None \<longrightarrow>
      from_strava_activity L a = Inl AttributeError)
   \<and> (from_strava_activity L a = Inr r \<longrightarrow>
        attr a ''id'' = Some (id_field r) \<and> attr a ''name'' = Some (name r))
   \<and> (from_strava_activity L (PObj ((''id'', v1) # (''name'', v2) # kvs)) = Inr r' \<longrightarrow>
        from_strava_activity L (PObj ((''id'', v1') # (''name'', v2') # kvs)) =
          Inr (r'\<lparr>id_field := v1', name := v2'\<rparr>))"
  using from_strava_activity_absent_identity [of a L]
    from_strava_activity_identity [of L a r]
    from_strava_activity_any_identity [of L v1 v2 kvs r' v1' v2']
  by blast

theorem identity_fields_unchecked_witness:
  "attr (PObj (payload_rest (PFloat 2.5) [])) ''id'' = None
   \<and> from_strava_activity lib0 (PObj (payload_rest (PFloat 2.5) [])) = Inl AttributeError
   \<and> from_strava_activity lib0 run_payload = Inr run_record
   \<and> attr run_payload ''id'' = Some (PInt 7)
   \<and> attr run_payload ''name'' = Some (PStr ''Morning Run'')
   \<and> from_strava_activity lib0 wrong_kind_payload = Inr wrong_kind_record"
  using identity_fields_unchecked [of "PObj (payload_rest (PFloat 2.5) [])" lib0 run_record
      "PInt 7" "PStr ''Morning Run''" "payload_rest (PFloat 2.5) []" run_record
      "PStr ''seven''" PNone]
    identity_fields_unchecked [of run_payload lib0 run_record
      "PInt 7" "PStr ''Morning Run''" "payload_rest (PFloat 2.5) []" run_record
      "PStr ''seven''" PNone]
    from_strava_activity_run_payload
  by (simp add: run_payload_def payload_with_def payload_rest_def run_record_def
      wrong_kind_payload_def wrong_kind_record_def record_with_def)

text \<open>
  C2 as stated fails: a payload whose \<^verbatim>\<open>id\<close> is a string and whose \<^verbatim>\<open>name\<close> is \<^verbatim>\<open>None\<close>
  is normalized without error.
\<close>

theorem wrong_kind_identity_accepted:
  "from_strava_activity lib0 wrong_kind_payload = Inr wrong_kind_record
   \<and> attr wrong_kind_payload ''id'' = Some (PStr ''seven'')
   \<and> attr wrong_kind_payload ''name'' = Some PNone
   \<and> id_field wrong_kind_record = PStr ''seven''
   \<and> name wrong_kind_record = PNone"
  by (simp add: wrong_kind_payload_def wrong_kind_record_def
      from_strava_activity_payload_with float_or_none_def bind_def)
     (simp add: payload_with_def record_with_def)

section \<open>Optional metrics\<close>

lemma float_or_none_cases:
  "float_or_none L v = Inr m \<longleftrightarrow>
     (case m of None \<Rightarrow> \<not> truthy v | Some x \<Rightarrow> truthy v \<and> py_float L v = Inr x)"
  by (cases "py_float L v"; cases m) (auto simp: float_or_none_def bind_def)

lemma from_strava_activity_optional:
  assumes "from_strava_activity L a = Inr r"
  shows "\<exists>v. attr a ''average_speed'' = Some v \<and> float_or_none L v = Inr (average_speed r)"
    and "\<exists>v. attr a ''max_speed'' = Some v \<and> float_or_none L v = Inr (max_speed r)"
    and "\<exists>v. attr a ''average_heartrate'' = Some v
           \<and> float_or_none L v = Inr (average_heartrate r)"
    and "\<exists>v. attr a ''max_heartrate'' = Some v \<and> float_or_none L v = Inr (max_heartrate r)"
    and "float_or_none L (getattr_default a ''calories'' PNone) = Inr (calories r)"
  using assms
  by (auto simp: from_strava_activity_def bind_Inr_iff getattr_Inr_iff Let_def)

lemma from_strava_activity_optional_default:
  assumes "from_strava_activity L a = Inr r"
    and "(n, m) \<in> set [(''average_speed'', average_speed r), (''max_speed'', max_speed r),
           (''average_heartrate'', average_heartrate r),
           (''max_heartrate'', max_heartrate r), (''calories'', calories r)]"
  shows "float_or_none L (getattr_default a n PNone) = Inr m"
    and "n \<noteq> ''calories'' \<longrightarrow> attr a n \<noteq> None"
  using from_strava_activity_optional [OF assms(1)] assms(2)
  by (auto simp: getattr_default_def)

lemma from_strava_activity_zero_metrics:
  "from_strava_activity lib0 zero_metrics_payload = Inr unreported_metrics_record"
  by (simp add: zero_metrics_payload_def unreported_metrics_record_def
      from_strava_activity_def payload_with_def payload_rest_def record_with_def getattr_def
      getattr_default_def bind_def float_or_zero_def float_or_none_def trunc_toward_zero_def)

lemma from_strava_activity_unreported_metrics:
  "from_strava_activity lib0 unreported_metrics_payload = Inr unreported_metrics_record"
  by (simp add: unreported_metrics_payload_def unreported_metrics_record_def
      from_strava_activity_payload_with float_or_none_def bind_def)

text \<open>
  C3, amended. For each optional metric (\<^verbatim>\<open>average_speed\<close>, \<^verbatim>\<open>max_speed\<close>,
  \<^verbatim>\<open>average_heartrate\<close>, \<^verbatim>\<open>max_heartrate\<close>, \<^verbatim>\<open>calories\<close>) of a payload that normalizes:
  the record's field is \<^verbatim>\<open>None\<close> exactly when the payload's value is falsy, which covers
  \<^verbatim>\<open>None\<close>, a numeric zero and, for \<^verbatim>\<open>calories\<close>, an absent attribute; otherwise it is
  \<^verbatim>\<open>float\<close> of the value. A supplied zero is therefore mapped to \<^verbatim>\<open>None\<close>, not to zero.
  The four metrics other than \<^verbatim>\<open>calories\<close> are read as attributes, so they are present in
  every payload that normalizes.
\<close>

theorem optional_metric_falsy_to_none:
  assumes "from_strava_activity L a = Inr r"
    and "(n, m) \<in> set [(''average_speed'', average_speed r), (''max_speed'', max_speed r),
           (''average_heartrate'', average_heartrate r),
           (''max_heartrate'', max_heartrate r), (''calories'', calories r)]"
  shows "(case m of
            None \<Rightarrow> \<not> truthy (getattr_default a n PNone)
          | Some x \<Rightarrow> truthy (getattr_default a n PNone)
                      \<and> py_float L (getattr_default a n PNone) = Inr x)
         \<and> (getattr_default a n PNone \<in> {PNone, PInt 0, PFloat 0} \<longrightarrow> m = None)
         \<and> (n \<noteq> ''calories'' \<longrightarrow> attr a n \<noteq> None)"
proof -
  have m: "float_or_none L (getattr_default a n PNone) = Inr m"
    and present: "n \<noteq> ''calories'' \<longrightarrow> attr a n \<noteq> None"
    using from_strava_activity_optional_default [OF assms] by simp_all
  from m have shape: "case m of
        None \<Rightarrow> \<not> truthy (getattr_default a n PNone)
      | Some x \<Rightarrow> truthy (getattr_default a n PNone)
                  \<and> py_float L (getattr_default a n PNone) = Inr x"
    by (simp add: float_or_none_cases)
  then have "getattr_default a n PNone \<in> {PNone, PInt 0, PFloat 0} \<longrightarrow> m = None"
    by (cases m) auto
  with shape present show ?thesis by simp
qed

theorem optional_metric_falsy_to_none_witness:
  "from_strava_activity lib0 zero_metrics_payload = Inr unreported_metrics_record
   \<and> getattr_default zero_metrics_payload ''calories'' PNone = PInt 0
   \<and> calories unreported_metrics_record = None
   \<and> getattr_default zero_metrics_payload ''max_speed'' PNone = PFloat 3
   \<and> max_speed unreported_metrics_record = Some 3"
  using optional_metric_falsy_to_none [OF from_strava_activity_zero_metrics,
      of "''calories''" "calories unreported_metrics_record"]
    optional_metric_falsy_to_none [OF from_strava_activity_zero_metrics,
      of "''max_speed''" "max_speed unreported_metrics_record"]
    from_strava_activity_zero_metrics
  by (simp add: zero_metrics_payload_def payload_with_def payload_rest_def
      unreported_metrics_record_def record_with_def getattr_default_def)

text \<open>
  C3 as stated fails: a payload that supplies an average speed of \<open>0.0\<close> and \<open>0\<close> calories
  gets \<^verbatim>\<open>None\<close> in both fields, the very record of the payload that reports neither.
\<close>

theorem zero_metric_becomes_none:
  "attr zero_metrics_payload ''average_speed'' = Some (PFloat 0)
   \<and> attr zero_metrics_payload ''calories'' = Some (PInt 0)
   \<and> attr unreported_metrics_payload ''average_speed'' = Some PNone
   \<and> attr unreported_metrics_payload ''calories'' = None
   \<and> from_strava_activity lib0 zero_metrics_payload = Inr unreported_metrics_record
   \<and> from_strava_activity lib0 unreported_metrics_payload = Inr unreported_metrics_record
   \<and> average_speed unreported_metrics_record = None
   \<and> calories unreported_metrics_record = None"
  using from_strava_activity_zero_metrics from_strava_activity_unreported_metrics
  by (simp add: zero_metrics_payload_def unreported_metrics_payload_def payload_with_def
      payload_rest_def unreported_metrics_record_def record_with_def)

section \<open>Transport form and re-normalization\<close>

lemma float_or_none_opt_float: "x \<noteq> Some 0 \<Longrightarrow> float_or_none L (opt_float x) = Inr x"
  by (cases x) (simp_all add: float_or_none_def opt_float_def bind_def)

lemma float_or_zero_PFloat: "float_or_zero L (PFloat d) = Inr d"
  by (simp add: float_or_zero_def)

lemma to_dict_datetimes:
  assumes "start_date r = PDatetime d1" and "start_date_local r = PDatetime d2"
  shows "to_dict r = Inr (PDict (transport_entries r d1 d2))"
  using assms by (simp add: to_dict_def bind_def transport_entries_def)

lemma to_dict_text_date: "start_date r = PStr d \<Longrightarrow> to_dict r = Inl AttributeError"
  by (simp add: to_dict_def bind_def)

lemma from_strava_activity_dict: "from_strava_activity L (PDict kvs) = Inl AttributeError"
  by (simp add: from_strava_activity_def getattr_def bind_def)

lemma from_strava_activity_transport_entries:
  assumes "type_field r = PStr s"
    and "average_speed r \<noteq> Some 0" and "max_speed r \<noteq> Some 0"
    and "average_heartrate r \<noteq> Some 0" and "max_heartrate r \<noteq> Some 0"
    and "calories r \<noteq> Some 0"
  shows "from_strava_activity L (PObj (transport_entries r d1 d2)) =
           Inr (r\<lparr>start_date := PStr d1, start_date_local := PStr d2\<rparr>)"
  using assms
  by (cases r)
     (simp add: from_strava_activity_def transport_entries_def getattr_def getattr_default_def
        bind_def float_or_none_opt_float float_or_zero_PFloat)

text \<open>
  C7, amended. Take a record whose type is a string, whose two dates are datetimes and
  none of whose optional metrics is a stored zero. \<^verbatim>\<open>to_dict\<close> turns it into a \<^verbatim>\<open>dict\<close>,
  and \<^verbatim>\<open>from_strava_activity\<close> rejects that \<^verbatim>\<open>dict\<close> with \<^verbatim>\<open>AttributeError\<close>, because it
  reads attributes and not keys. Offered as the attributes of an object, the same entries
  normalize to the original record in every field except \<open>start_date\<close> and
  \<open>start_date_local\<close>, which now hold the ISO-8601 strings; \<^verbatim>\<open>to_dict\<close> of that record
  fails, a string having no \<^verbatim>\<open>isoformat\<close>.
\<close>

theorem renormalize_transport_form:
  assumes "type_field r = PStr s"
    and "start_date r = PDatetime d1" and "start_date_local r = PDatetime d2"
    and "average_speed r \<noteq> Some 0" and "max_speed r \<noteq> Some 0"
    and "average_heartrate r \<noteq> Some 0" and "max_heartrate r \<noteq> Some 0"
    and "calories r \<noteq> Some 0"
  shows "to_dict r = Inr (PDict (transport_entries r d1 d2))
         \<and> from_strava_activity L (PDict (transport_entries r d1 d2)) = Inl AttributeError
         \<and> from_strava_activity L (PObj (transport_entries r d1 d2)) =
             Inr (r\<lparr>start_date := PStr d1, start_date_local := PStr d2\<rparr>)
         \<and> to_dict (r\<lparr>start_date := PStr d1, start_date_local := PStr d2\<rparr>) =
             Inl AttributeError"
  using to_dict_datetimes [OF assms(2,3)]
    from_strava_activity_dict [of L "transport_entries r d1 d2"]
    from_strava_activity_transport_entries [OF assms(1) assms(4-8), of L d1 d2]
    to_dict_text_date [of "r\<lparr>start_date := PStr d1, start_date_local := PStr d2\<rparr>" d1]
  by simp

theorem renormalize_transport_form_witness:
  "type_field run_record = PStr ''Run''
   \<and> start_date run_record = PDatetime ''2024-01-01T10:00:00+00:00''
   \<and> start_date_local run_record = PDatetime ''2024-01-01T11:00:00''
   \<and> to_dict run_record =
       Inr (PDict (transport_entries run_record
              ''2024-01-01T10:00:00+00:00'' ''2024-01-01T11:00:00''))
   \<and> from_strava_activity lib0 (PObj (transport_entries run_record
          ''2024-01-01T10:00:00+00:00'' ''2024-01-01T11:00:00'')) =
       Inr (run_record\<lparr>start_date := PStr ''2024-01-01T10:00:00+00:00'',
                       start_date_local := PStr ''2024-01-01T11:00:00''\<rparr>)"
  using renormalize_transport_form [of run_record "''Run''"
      "''2024-01-01T10:00:00+00:00''" "''2024-01-01T11:00:00''" lib0]
  by (simp add: run_record_def record_with_def)

text \<open>
  C7 as stated fails: the transport form of the normalized example activity cannot be
  normalized again; its record differs from the one obtained when the entries are read as
  attributes; and that record, whose dates are strings, has no transport form.
\<close>

theorem transport_form_not_renormalizable:
  "from_strava_activity lib0 run_payload = Inr run_record
   \<and> to_dict run_record =
       Inr (PDict (transport_entries run_record
              ''2024-01-01T10:00:00+00:00'' ''2024-01-01T11:00:00''))
   \<and> from_strava_activity lib0 (PDict (transport_entries run_record
          ''2024-01-01T10:00:00+00:00'' ''2024-01-01T11:00:00'')) = Inl AttributeError
   \<and> from_strava_activity lib0 (PObj (transport_entries run_record
          ''2024-01-01T10:00:00+00:00'' ''2024-01-01T11:00:00'')) \<noteq> Inr run_record
   \<and> to_dict (run_record\<lparr>start_date := PStr ''2024-01-01T10:00:00+00:00'',
                          start_date_local := PStr ''2024-01-01T11:00:00''\<rparr>) =
       Inl AttributeError"
proof -
  have dates: "start_date run_record = PDatetime ''2024-01-01T10:00:00+00:00''"
    "start_date_local run_record = PDatetime ''2024-01-01T11:00:00''"
    by (simp_all add: run_record_def record_with_def)
  have "from_strava_activity lib0 (PObj (transport_entries run_record
          ''2024-01-01T10:00:00+00:00'' ''2024-01-01T11:00:00'')) =
       Inr (run_record\<lparr>start_date := PStr ''2024-01-01T10:00:00+00:00'',
                       start_date_local := PStr ''2024-01-01T11:00:00''\<rparr>)"
    by (rule from_strava_activity_transport_entries [where s = "''Run''"])
       (simp_all add: run_record_def record_with_def)
  moreover have "run_record\<lparr>start_date := PStr ''2024-01-01T10:00:00+00:00'',
                       start_date_local := PStr ''2024-01-01T11:00:00''\<rparr> \<noteq> run_record"
    by (simp add: run_record_def record_with_def)
  ultimately show ?thesis
    using from_strava_activity_run_payload to_dict_datetimes [OF dates]
      from_strava_activity_dict
      to_dict_text_date [of "run_record\<lparr>start_date := PStr ''2024-01-01T10:00:00+00:00'',
          start_date_local := PStr ''2024-01-01T11:00:00''\<rparr>" "''2024-01-01T10:00:00+00:00''"]
    by simp
qed

section \<open>Loading the token file\<close>

lemma load_and_set_token_no_file:
  "files w (token_file self) = None \<Longrightarrow>
     load_and_set_token L self w = (Inl FileNotFoundError, w)"
  by (simp add: load_and_set_token_def)

lemma load_and_set_token_not_json:
  "files w (token_file self) = Some (RawText s) \<Longrightarrow>
     load_and_set_token L self w = (Inl JSONDecodeError, w)"
  by (simp add: load_and_set_token_def)

lemma load_and_set_token_missing_token:
  assumes "files w (token_file self) = Some (JsonText (JObj data))"
    and "\<not> json_truthy (dict_get data ''access_token'')
         \<or> \<not> json_truthy (dict_get data ''refresh_token'')"
  shows "load_and_set_token L self w = (Inl ValueError, w)"
  using assms by (auto simp: load_and_set_token_def Let_def)

lemma load_and_set_token_not_object:
  assumes "files w (token_file self) = Some (JsonText v)" and "\<forall>data. v \<noteq> JObj data"
  shows "load_and_set_token L self w = (Inl AttributeError, w)"
  using assms by (cases v) (simp_all add: load_and_set_token_def)

lemma load_and_set_token_falsy_expiry:
  assumes "files w (token_file self) = Some (JsonText (JObj data))"
    and "json_truthy (dict_get data ''access_token'')"
    and "json_truthy (dict_get data ''refresh_token'')"
    and "\<not> json_truthy (dict_get data ''expires_at'')"
  shows "load_and_set_token L self w =
           (Inr (self\<lparr>access_token := Some (dict_get data ''access_token'')\<rparr>), w)"
  using assms by (simp add: load_and_set_token_def)

lemma load_and_set_token_margin:
  assumes "files w (token_file self) = Some (JsonText (JObj data))"
    and "json_truthy (dict_get data ''access_token'')"
    and "json_truthy (dict_get data ''refresh_token'')"
    and "(\<exists>n. map_of data ''expires_at'' = Some (JInt n) \<and> real_of_int n = now w + 300)
         \<or> (\<exists>x. map_of data ''expires_at'' = Some (JFloat x) \<and> x = now w + 300)"
  shows "load_and_set_token L self w =
           (Inr (self\<lparr>access_token := Some (dict_get data ''access_token'')\<rparr>), w)"
  using assms by (auto simp add: load_and_set_token_def dict_get_def Let_def)

lemma token_world_file:
  "files (token_world expiry f) (token_file client0) =
     Some (JsonText (JObj (stored_tokens expiry)))"
  by (simp add: token_world_def world_with_def client0_def)

lemma stored_tokens_get:
  "dict_get (stored_tokens expiry) ''access_token'' = JStr ''old-access''"
  "dict_get (stored_tokens expiry) ''refresh_token'' = JStr ''old-refresh''"
  "map_of (stored_tokens expiry) ''expires_at'' = map_of expiry ''expires_at''"
  "dict_get (stored_tokens expiry) ''expires_at'' = dict_get expiry ''expires_at''"
  by (simp_all add: stored_tokens_def dict_get_def)

lemma dict_get_simps:
  "dict_get [] k = JNull"
  "dict_get ((k', v) # kvs) k = (if k' = k then v else dict_get kvs k)"
  by (simp_all add: dict_get_def)

text \<open>
  C4, the failing input. A token file holding the JSON document \<^verbatim>\<open>[]\<close> has neither
  token field. Loading it raises \<^verbatim>\<open>AttributeError\<close> (a list has no \<^verbatim>\<open>get\<close>), which is
  not a \<^verbatim>\<open>ValueError\<close> and which \<^verbatim>\<open>get_client\<close> does not catch.
\<close>

theorem token_file_json_array:
  "load_and_set_token lib0 client0 (world_with (Some (JsonText (JArr []))) NoFault) =
     (Inl AttributeError, world_with (Some (JsonText (JArr []))) NoFault)
   \<and> \<not> is_ValueError AttributeError"
  by (simp add: load_and_set_token_def is_ValueError_def client0_def world_with_def)

theorem token_file_json_array_witness:
  "get_client lib0 None (world_with (Some (JsonText (JArr []))) NoFault) =
     (Uncaught AttributeError, world_with (Some (JsonText (JArr []))) NoFault)"
  using token_file_json_array
  by (simp add: get_client_def StravaClient_def client0_def)

section \<open>Tokens that are not refreshed\<close>

text \<open>
  C5. When the token file holds both tokens and an \<open>expires_at\<close> more than 300 seconds
  after the current time, loading sets the client's access token to the stored one and
  leaves the world as it was: no call to the token endpoint, no change to any file.
\<close>

theorem unexpired_token_used_as_is:
  assumes "files w (token_file self) = Some (JsonText (JObj data))"
    and "json_truthy (dict_get data ''access_token'')"
    and "json_truthy (dict_get data ''refresh_token'')"
    and "(\<exists>n. map_of data ''expires_at'' = Some (JInt n) \<and> now w + 300 < real_of_int n)
         \<or> (\<exists>x. map_of data ''expires_at'' = Some (JFloat x) \<and> now w + 300 < x)"
  shows "load_and_set_token L self w =
           (Inr (self\<lparr>access_token := Some (dict_get data ''access_token'')\<rparr>), w)"
  using assms by (auto simp add: load_and_set_token_def dict_get_def Let_def)

theorem unexpired_token_used_as_is_witness:
  "map_of (stored_tokens [(''expires_at'', JInt 1700003600)]) ''expires_at'' =
     Some (JInt 1700003600)
   \<and> now (token_world [(''expires_at'', JInt 1700003600)] NoFault) + 300 < 1700003600
   \<and> load_and_set_token lib0 client0 (token_world [(''expires_at'', JInt 1700003600)] NoFault) =
       (Inr (client0\<lparr>access_token := Some (JStr ''old-access'')\<rparr>),
        token_world [(''expires_at'', JInt 1700003600)] NoFault)"
proof -
  have time: "now (token_world [(''expires_at'', JInt 1700003600)] NoFault) + 300 < 1700003600"
    by (simp add: token_world_def world_with_def)
  show ?thesis
    using unexpired_token_used_as_is
        [OF token_world_file [of "[(''expires_at'', JInt 1700003600)]" NoFault], of lib0] time
    by (simp add: stored_tokens_get)
qed

text \<open>
  C8. When the token file holds both tokens and no \<open>expires_at\<close> field, the token is
  treated as not expired: loading sets the client's access token to the stored one and
  leaves the world as it was, so the token endpoint is not called.
\<close>

theorem absent_expiry_not_refreshed:
  assumes "files w (token_file self) = Some (JsonText (JObj data))"
    and "json_truthy (dict_get data ''access_token'')"
    and "json_truthy (dict_get data ''refresh_token'')"
    and "map_of data ''expires_at'' = None"
  shows "load_and_set_token L self w =
           (Inr (self\<lparr>access_token := Some (dict_get data ''access_token'')\<rparr>), w)"
  using assms load_and_set_token_falsy_expiry [of w self data L]
  by (simp add: dict_get_def)

theorem absent_expiry_not_refreshed_witness:
  "map_of (stored_tokens []) ''expires_at'' = None
   \<and> load_and_set_token lib0 client0 (token_world [] NoFault) =
       (Inr (client0\<lparr>access_token := Some (JStr ''old-access'')\<rparr>), token_world [] NoFault)
   \<and> calls (token_world [] NoFault) = []"
  using absent_expiry_not_refreshed [OF token_world_file [of "[]" NoFault], of lib0]
  by (simp add: stored_tokens_get token_world_def world_with_def)

text \<open>
  C10. When the token file holds both tokens and an \<open>expires_at\<close> that is present but
  falsy (\<open>0\<close>, \<open>0.0\<close>, and likewise \<^verbatim>\<open>false\<close>, \<^verbatim>\<open>null\<close> or an empty string or container),
  loading sets the client's access token to the stored one and leaves the world as it
  was: no refresh is attempted although the timestamp 0 lies in the past. Conversely,
  whenever loading changes the world or ends in an error other than the \<^verbatim>\<open>ValueError\<close> for
  a missing token, \<open>expires_at\<close> is truthy.
\<close>

theorem falsy_expiry_not_refreshed:
  assumes "files w (token_file self) = Some (JsonText (JObj data))"
    and "json_truthy (dict_get data ''access_token'')"
    and "json_truthy (dict_get data ''refresh_token'')"
  shows "(map_of data ''expires_at'' = Some e \<and> \<not> json_truthy e \<longrightarrow>
            load_and_set_token L self w =
              (Inr (self\<lparr>access_token := Some (dict_get data ''access_token'')\<rparr>), w))
         \<and> (load_and_set_token L self w \<noteq>
              (Inr (self\<lparr>access_token := Some (dict_get data ''access_token'')\<rparr>), w) \<longrightarrow>
            json_truthy (dict_get data ''expires_at''))"
  using assms load_and_set_token_falsy_expiry [of w self data L]
  by (auto simp: dict_get_def)

theorem falsy_expiry_not_refreshed_witness:
  "map_of (stored_tokens [(''expires_at'', JInt 0)]) ''expires_at'' = Some (JInt 0)
   \<and> \<not> json_truthy (JInt 0)
   \<and> load_and_set_token lib0 client0 (token_world [(''expires_at'', JInt 0)] NoFault) =
       (Inr (client0\<lparr>access_token := Some (JStr ''old-access'')\<rparr>),
        token_world [(''expires_at'', JInt 0)] NoFault)
   \<and> calls (token_world [(''expires_at'', JInt 0)] NoFault) = []"
  using falsy_expiry_not_refreshed
      [OF token_world_file [of "[(''expires_at'', JInt 0)]" NoFault], of "JInt 0" lib0]
  by (simp add: stored_tokens_get token_world_def world_with_def)

section \<open>Refreshing\<close>

lemma load_and_set_token_expired:
  assumes "files w (token_file self) = Some (JsonText (JObj data))"
    and "json_truthy (dict_get data ''access_token'')"
    and "json_truthy (dict_get data ''refresh_token'')"
    and "(\<exists>n. map_of data ''expires_at'' = Some (JInt n) \<and> n \<noteq> 0 \<and> real_of_int n - 300 < now w)
         \<or> (\<exists>x. map_of data ''expires_at'' = Some (JFloat x) \<and> x \<noteq> 0 \<and> x - 300 < now w)"
  shows "load_and_set_token L self w = refresh_token L self (dict_get data ''refresh_token'') w"
  using assms by (auto simp add: load_and_set_token_def dict_get_def Let_def)

lemma refresh_token_success:
  assumes "environ w ''STRAVA_CLIENT_ID'' = Some client_id" and "client_id \<noteq> []"
    and "environ w ''STRAVA_CLIENT_SECRET'' = Some client_secret" and "client_secret \<noteq> []"
    and "int_of_str L client_id = Some cid"
    and "remote w cid client_secret rt = Inr token_response"
    and "fault w = NoFault"
    and "map_of token_response ''access_token'' = Some tok"
  shows "refresh_token L self rt w =
           (Inr (self\<lparr>access_token := Some tok\<rparr>),
            w\<lparr>calls := calls w @ [(cid, client_secret, rt)],
              files := (files w)(token_file self \<mapsto> JsonText (JObj token_response))\<rparr>)"
  using assms by (simp add: refresh_token_def open_w_def json_dump_def Let_def)

lemma token_world_fields:
  "environ (token_world expiry f) ''STRAVA_CLIENT_ID'' = Some ''12345''"
  "environ (token_world expiry f) ''STRAVA_CLIENT_SECRET'' = Some ''s3cret''"
  "remote (token_world expiry f) cid secret rt = Inr fresh_triple"
  "fault (token_world expiry f) = f"
  "now (token_world expiry f) = 1700000000"
  "calls (token_world expiry f) = []"
  by (simp_all add: token_world_def world_with_def)

text \<open>
  C6, amended. When the token file holds both tokens and a nonzero \<open>expires_at\<close> with
  \<open>now > expires_at - 300\<close>, the client id and secret are set (the id being the text of an
  integer), the token endpoint answers with a response that has an \<open>access_token\<close>, and
  the write meets no fault, then loading calls the endpoint exactly once, with the stored
  refresh token; the client's access token is the response's; and the token file
  afterwards parses to exactly the response. (An \<open>expires_at\<close> of zero never leads to a
  refresh, and at exactly \<open>now + 300\<close> there is none either: see
  \<open>load_and_set_token_falsy_expiry\<close> and \<open>load_and_set_token_margin\<close>.)
\<close>

theorem expired_token_refreshed:
  assumes "files w (token_file self) = Some (JsonText (JObj data))"
    and "json_truthy (dict_get data ''access_token'')"
    and "json_truthy (dict_get data ''refresh_token'')"
    and "(\<exists>n. map_of data ''expires_at'' = Some (JInt n) \<and> n \<noteq> 0 \<and> real_of_int n - 300 < now w)
         \<or> (\<exists>x. map_of data ''expires_at'' = Some (JFloat x) \<and> x \<noteq> 0 \<and> x - 300 < now w)"
    and "environ w ''STRAVA_CLIENT_ID'' = Some client_id" and "client_id \<noteq> []"
    and "environ w ''STRAVA_CLIENT_SECRET'' = Some client_secret" and "client_secret \<noteq> []"
    and "int_of_str L client_id = Some cid"
    and "remote w cid client_secret (dict_get data ''refresh_token'') = Inr token_response"
    and "map_of token_response ''access_token'' = Some tok"
    and "fault w = NoFault"
    and "load_and_set_token L self w = (res, w')"
  shows "res = Inr (self\<lparr>access_token := Some tok\<rparr>)
         \<and> calls w' = calls w @ [(cid, client_secret, dict_get data ''refresh_token'')]
         \<and> files w' = (files w)(token_file self \<mapsto> JsonText (JObj token_response))
         \<and> (\<exists>txt. files w' (token_file self) = Some txt
                \<and> json_load txt = Inr (JObj token_response))"
proof -
  have "load_and_set_token L self w =
          (Inr (self\<lparr>access_token := Some tok\<rparr>),
           w\<lparr>calls := calls w @ [(cid, client_secret, dict_get data ''refresh_token'')],
             files := (files w)(token_file self \<mapsto> JsonText (JObj token_response))\<rparr>)"
    using load_and_set_token_expired [OF assms(1-4), of L]
      refresh_token_success [OF assms(5-10) assms(12) assms(11), of self]
    by simp
  with assms(13) show ?thesis by auto
qed

theorem expired_token_refreshed_witness:
  "map_of (stored_tokens [(''expires_at'', JInt 1700000100)]) ''expires_at'' =
     Some (JInt 1700000100)
   \<and> real_of_int 1700000100 - 300 < now (token_world [(''expires_at'', JInt 1700000100)] NoFault)
   \<and> fst (load_and_set_token lib0 client0
            (token_world [(''expires_at'', JInt 1700000100)] NoFault)) =
       Inr (client0\<lparr>access_token := Some (JStr ''new-access'')\<rparr>)
   \<and> calls (snd (load_and_set_token lib0 client0
            (token_world [(''expires_at'', JInt 1700000100)] NoFault))) =
       [(12345, ''s3cret'', JStr ''old-refresh'')]
   \<and> files (snd (load_and_set_token lib0 client0
            (token_world [(''expires_at'', JInt 1700000100)] NoFault))) ''strava-token.json'' =
       Some (JsonText (JObj fresh_triple))"
  using expired_token_refreshed
    [OF token_world_file [of "[(''expires_at'', JInt 1700000100)]" NoFault],
      of "''12345''" "''s3cret''" lib0 12345 fresh_triple "JStr ''new-access''"
        "fst (load_and_set_token lib0 client0
            (token_world [(''expires_at'', JInt 1700000100)] NoFault))"
        "snd (load_and_set_token lib0 client0
            (token_world [(''expires_at'', JInt 1700000100)] NoFault))"]
  by (simp add: stored_tokens_get token_world_fields lib0_def fresh_triple_def client0_def)

text \<open>
  C6 as stated fails: with an \<open>expires_at\<close> of 0, a timestamp in the past, loading makes
  no call to the token endpoint and leaves the token file as it was.
\<close>

theorem zero_expiry_in_the_past_not_refreshed:
  "map_of (stored_tokens [(''expires_at'', JInt 0)]) ''expires_at'' = Some (JInt 0)
   \<and> real_of_int 0 < now (token_world [(''expires_at'', JInt 0)] NoFault)
   \<and> fst (load_and_set_token lib0 client0 (token_world [(''expires_at'', JInt 0)] NoFault)) =
       Inr (client0\<lparr>access_token := Some (JStr ''old-access'')\<rparr>)
   \<and> calls (snd (load_and_set_token lib0 client0
         (token_world [(''expires_at'', JInt 0)] NoFault))) = []
   \<and> files (snd (load_and_set_token lib0 client0
         (token_world [(''expires_at'', JInt 0)] NoFault))) ''strava-token.json'' =
       Some (JsonText (JObj (stored_tokens [(''expires_at'', JInt 0)])))"
proof -
  have "load_and_set_token lib0 client0 (token_world [(''expires_at'', JInt 0)] NoFault) =
          (Inr (client0\<lparr>access_token := Some (JStr ''old-access'')\<rparr>),
           token_world [(''expires_at'', JInt 0)] NoFault)"
    using load_and_set_token_falsy_expiry
      [OF token_world_file [of "[(''expires_at'', JInt 0)]" NoFault], of lib0]
    by (simp add: stored_tokens_get dict_get_simps)
  then show ?thesis
    using token_world_file [of "[(''expires_at'', JInt 0)]" NoFault]
    by (simp add: stored_tokens_get token_world_fields client0_def)
qed

section \<open>The rewrite of the token file\<close>

lemma refresh_token_unconfigured:
  assumes "environ w ''STRAVA_CLIENT_ID'' = None \<or> environ w ''STRAVA_CLIENT_ID'' = Some []
           \<or> environ w ''STRAVA_CLIENT_SECRET'' = None
           \<or> environ w ''STRAVA_CLIENT_SECRET'' = Some []"
  shows "refresh_token L self rt w = (Inl ValueError, w)"
  using assms
  by (auto simp add: refresh_token_def split: option.splits)

lemma refresh_token_client_id_not_int:
  assumes "environ w ''STRAVA_CLIENT_ID'' = Some client_id"
    and "int_of_str L client_id = None"
  shows "refresh_token L self rt w = (Inl ValueError, w)"
  using assms
  by (auto simp add: refresh_token_def split: option.splits)

lemma refresh_token_configured:
  assumes "environ w ''STRAVA_CLIENT_ID'' = Some client_id" and "client_id \<noteq> []"
    and "environ w ''STRAVA_CLIENT_SECRET'' = Some client_secret" and "client_secret \<noteq> []"
    and "int_of_str L client_id = Some cid"
  shows "refresh_token L self rt w =
     (case remote w cid client_secret rt of
        Inl e \<Rightarrow> (Inl e, w\<lparr>calls := calls w @ [(cid, client_secret, rt)]\<rparr>)
      | Inr resp \<Rightarrow>
          (case fault w of
             OpenFails \<Rightarrow> (Inl OSError, w\<lparr>calls := calls w @ [(cid, client_secret, rt)]\<rparr>)
           | DumpFails s \<Rightarrow>
               (Inl OSError,
                w\<lparr>calls := calls w @ [(cid, client_secret, rt)],
                  files := (files w)(token_file self \<mapsto> RawText s)\<rparr>)
           | NoFault \<Rightarrow>
               (case map_of resp ''access_token'' of
                  None \<Rightarrow> Inl KeyError
                | Some t \<Rightarrow> Inr (self\<lparr>access_token := Some t\<rparr>),
                w\<lparr>calls := calls w @ [(cid, client_secret, rt)],
                  files := (files w)(token_file self \<mapsto> JsonText (JObj resp))\<rparr>)))"
  using assms
  by (simp add: refresh_token_def open_w_def json_dump_def Let_def
      split: sum.splits write_fault.splits option.splits)

lemma refresh_token_trichotomy:
  assumes "refresh_token L self rt w = (res, w')"
  shows "((\<exists>e. res = Inl e) \<and> files w' = files w)
         \<or> (fault w = NoFault
              \<and> (\<exists>cid secret resp. remote w cid secret rt = Inr resp
                    \<and> files w' = (files w)(token_file self \<mapsto> JsonText (JObj resp))))
         \<or> (\<exists>s. fault w = DumpFails s \<and> res = Inl OSError
                \<and> files w' = (files w)(token_file self \<mapsto> RawText s))"
  using assms
  by (auto simp add: refresh_token_def open_w_def json_dump_def Let_def
      split: option.splits sum.splits if_splits write_fault.splits prod.splits; blast)

lemma refresh_world_fields:
  "files (refresh_world env answer f) =
     (\<lambda>p. if p = ''strava-token.json'' then Some (JsonText (JObj (stored_tokens []))) else None)"
  "environ (refresh_world env answer f) = env"
  "remote (refresh_world env answer f) cid secret rt = answer"
  "fault (refresh_world env answer f) = f"
  "calls (refresh_world env answer f) = []"
  by (simp_all add: refresh_world_def)

lemma secrets_set_fields:
  "secrets_set ''STRAVA_CLIENT_ID'' = Some ''12345''"
  "secrets_set ''STRAVA_CLIENT_SECRET'' = Some ''s3cret''"
  by (simp_all add: secrets_set_def)

text \<open>
  C1, amended. The token file is rewritten in place: it is opened for writing, which
  empties it, and the response is then written into it. For a refresh attempt that ends
  in the outcome \<open>res\<close> and the world \<open>w'\<close>:
  \<^item> when the client id or the client secret is missing or empty, or the client id is
    not the text of an integer, the attempt ends in \<^verbatim>\<open>ValueError\<close> and the world is as it
    was: no call to the endpoint, no file touched;
  \<^item> otherwise the endpoint is called once, with the integer client id, the secret and
    the refresh token, and
    \<^item> when the endpoint fails, the attempt ends in its error and every file is as it was;
    \<^item> when the endpoint answers and opening the file fails, the attempt ends in
      \<^verbatim>\<open>OSError\<close> and every file is as it was;
    \<^item> when the endpoint answers and \<^verbatim>\<open>json.dump\<close> fails part-way, the attempt ends in
      \<^verbatim>\<open>OSError\<close> and the token file holds the text written so far, no other file being
      touched;
    \<^item> when the endpoint answers and the write meets no fault, the token file holds the
      complete response, no other file being touched, and the attempt ends with the
      response's access token set, or in \<^verbatim>\<open>KeyError\<close> when the response has none.
  In every case the files are as they were, or the token file holds the complete
  response, or \<^verbatim>\<open>json.dump\<close> failed and it holds the partial text.
\<close>

theorem refresh_token_file_outcomes:
  assumes "refresh_token L self rt w = (res, w')"
  shows "(((\<exists>e. res = Inl e) \<and> files w' = files w)
          \<or> (fault w = NoFault
               \<and> (\<exists>cid secret resp. remote w cid secret rt = Inr resp
                     \<and> files w' = (files w)(token_file self \<mapsto> JsonText (JObj resp))))
          \<or> (\<exists>s. fault w = DumpFails s \<and> res = Inl OSError
                 \<and> files w' = (files w)(token_file self \<mapsto> RawText s)))
         \<and> (environ w ''STRAVA_CLIENT_ID'' = None \<or> environ w ''STRAVA_CLIENT_ID'' = Some []
             \<or> environ w ''STRAVA_CLIENT_SECRET'' = None
             \<or> environ w ''STRAVA_CLIENT_SECRET'' = Some [] \<longrightarrow>
             res = Inl ValueError \<and> w' = w)
         \<and> (environ w ''STRAVA_CLIENT_ID'' = Some client_id \<and> int_of_str L client_id = None
             \<longrightarrow> res = Inl ValueError \<and> w' = w)
         \<and> (environ w ''STRAVA_CLIENT_ID'' = Some client_id \<and> client_id \<noteq> []
             \<and> environ w ''STRAVA_CLIENT_SECRET'' = Some client_secret \<and> client_secret \<noteq> []
             \<and> int_of_str L client_id = Some cid \<longrightarrow>
             calls w' = calls w @ [(cid, client_secret, rt)]
             \<and> (\<forall>e. remote w cid client_secret rt = Inl e \<longrightarrow>
                    res = Inl e \<and> files w' = files w)
             \<and> (\<forall>resp. remote w cid client_secret rt = Inr resp \<longrightarrow>
                    (fault w = OpenFails \<longrightarrow> res = Inl OSError \<and> files w' = files w)
                  \<and> (\<forall>s. fault w = DumpFails s \<longrightarrow>
                         res = Inl OSError
                         \<and> files w' = (files w)(token_file self \<mapsto> RawText s))
                  \<and> (fault w = NoFault \<longrightarrow>
                         files w' = (files w)(token_file self \<mapsto> JsonText (JObj resp))
                         \<and> res = (case map_of resp ''access_token'' of
                                    None \<Rightarrow> Inl KeyError
                                  | Some t \<Rightarrow> Inr (self\<lparr>access_token := Some t\<rparr>)))))"
proof -
  have three: "((\<exists>e. res = Inl e) \<and> files w' = files w)
          \<or> (fault w = NoFault
               \<and> (\<exists>cid secret resp. remote w cid secret rt = Inr resp
                     \<and> files w' = (files w)(token_file self \<mapsto> JsonText (JObj resp))))
          \<or> (\<exists>s. fault w = DumpFails s \<and> res = Inl OSError
                 \<and> files w' = (files w)(token_file self \<mapsto> RawText s))"
    by (rule refresh_token_trichotomy [OF assms])
  have unconfigured: "environ w ''STRAVA_CLIENT_ID'' = None
        \<or> environ w ''STRAVA_CLIENT_ID'' = Some []
        \<or> environ w ''STRAVA_CLIENT_SECRET'' = None
        \<or> environ w ''STRAVA_CLIENT_SECRET'' = Some [] \<longrightarrow>
      res = Inl ValueError \<and> w' = w"
    using assms refresh_token_unconfigured [of w L self rt] by auto
  have not_int: "environ w ''STRAVA_CLIENT_ID'' = Some client_id
        \<and> int_of_str L client_id = None \<longrightarrow> res = Inl ValueError \<and> w' = w"
    using assms refresh_token_client_id_not_int [of w client_id L self rt] by auto
  have configured: "environ w ''STRAVA_CLIENT_ID'' = Some client_id \<and> client_id \<noteq> []
        \<and> environ w ''STRAVA_CLIENT_SECRET'' = Some client_secret \<and> client_secret \<noteq> []
        \<and> int_of_str L client_id = Some cid \<longrightarrow>
        calls w' = calls w @ [(cid, client_secret, rt)]
        \<and> (\<forall>e. remote w cid client_secret rt = Inl e \<longrightarrow>
               res = Inl e \<and> files w' = files w)
        \<and> (\<forall>resp. remote w cid client_secret rt = Inr resp \<longrightarrow>
               (fault w = OpenFails \<longrightarrow> res = Inl OSError \<and> files w' = files w)
             \<and> (\<forall>s. fault w = DumpFails s \<longrightarrow>
                    res = Inl OSError
                    \<and> files w' = (files w)(token_file self \<mapsto> RawText s))
             \<and> (fault w = NoFault \<longrightarrow>
                    files w' = (files w)(token_file self \<mapsto> JsonText (JObj resp))
                    \<and> res = (case map_of resp ''access_token'' of
                               None \<Rightarrow> Inl KeyError
                             | Some t \<Rightarrow> Inr (self\<lparr>access_token := Some t\<rparr>))))"
  proof (intro impI, elim conjE)
    assume env: "environ w ''STRAVA_CLIENT_ID'' = Some client_id" "client_id \<noteq> []"
      "environ w ''STRAVA_CLIENT_SECRET'' = Some client_secret" "client_secret \<noteq> []"
      "int_of_str L client_id = Some cid"
    show "calls w' = calls w @ [(cid, client_secret, rt)]
        \<and> (\<forall>e. remote w cid client_secret rt = Inl e \<longrightarrow>
               res = Inl e \<and> files w' = files w)
        \<and> (\<forall>resp. remote w cid client_secret rt = Inr resp \<longrightarrow>
               (fault w = OpenFails \<longrightarrow> res = Inl OSError \<and> files w' = files w)
             \<and> (\<forall>s. fault w = DumpFails s \<longrightarrow>
                    res = Inl OSError
                    \<and> files w' = (files w)(token_file self \<mapsto> RawText s))
             \<and> (fault w = NoFault \<longrightarrow>
                    files w' = (files w)(token_file self \<mapsto> JsonText (JObj resp))
                    \<and> res = (case map_of resp ''access_token'' of
                               None \<Rightarrow> Inl KeyError
                             | Some t \<Rightarrow> Inr (self\<lparr>access_token := Some t\<rparr>))))"
      using assms refresh_token_configured [OF env, of self rt]
      by (cases "remote w cid client_secret rt"; cases "fault w") auto
  qed
  from three unconfigured not_int configured show ?thesis by blast
qed

theorem refresh_token_file_outcomes_witness:
  "refresh_token lib0 client0 (JStr ''old-refresh'') (refresh_world Map.empty (Inr fresh_triple) NoFault)
     = (Inl ValueError, refresh_world Map.empty (Inr fresh_triple) NoFault)
   \<and> refresh_token lib0 client0 (JStr ''old-refresh'')
       (refresh_world [''STRAVA_CLIENT_ID'' \<mapsto> ''abc'', ''STRAVA_CLIENT_SECRET'' \<mapsto> ''s3cret'']
          (Inr fresh_triple) NoFault)
     = (Inl ValueError,
        refresh_world [''STRAVA_CLIENT_ID'' \<mapsto> ''abc'', ''STRAVA_CLIENT_SECRET'' \<mapsto> ''s3cret'']
          (Inr fresh_triple) NoFault)
   \<and> fst (refresh_token lib0 client0 (JStr ''old-refresh'')
        (refresh_world secrets_set (Inl RemoteFault) NoFault)) = Inl RemoteFault
   \<and> files (snd (refresh_token lib0 client0 (JStr ''old-refresh'')
        (refresh_world secrets_set (Inl RemoteFault) NoFault))) ''strava-token.json''
       = Some (JsonText (JObj (stored_tokens [])))
   \<and> fst (refresh_token lib0 client0 (JStr ''old-refresh'')
        (refresh_world secrets_set (Inr fresh_triple) OpenFails)) = Inl OSError
   \<and> files (snd (refresh_token lib0 client0 (JStr ''old-refresh'')
        (refresh_world secrets_set (Inr fresh_triple) OpenFails))) ''strava-token.json''
       = Some (JsonText (JObj (stored_tokens [])))
   \<and> fst (refresh_token lib0 client0 (JStr ''old-refresh'')
        (refresh_world secrets_set (Inr fresh_triple) (DumpFails ''{''))) = Inl OSError
   \<and> files (snd (refresh_token lib0 client0 (JStr ''old-refresh'')
        (refresh_world secrets_set (Inr fresh_triple) (DumpFails ''{'')))) ''strava-token.json''
       = Some (RawText ''{'')
   \<and> fst (refresh_token lib0 client0 (JStr ''old-refresh'')
        (refresh_world secrets_set (Inr fresh_triple) NoFault))
       = Inr (client0\<lparr>access_token := Some (JStr ''new-access'')\<rparr>)
   \<and> files (snd (refresh_token lib0 client0 (JStr ''old-refresh'')
        (refresh_world secrets_set (Inr fresh_triple) NoFault))) ''strava-token.json''
       = Some (JsonText (JObj fresh_triple))
   \<and> calls (snd (refresh_token lib0 client0 (JStr ''old-refresh'')
        (refresh_world secrets_set (Inr fresh_triple) NoFault)))
       = [(12345, ''s3cret'', JStr ''old-refresh'')]"
proof -
  let ?rt = "JStr ''old-refresh''"
  let ?abc = "[''STRAVA_CLIENT_ID'' \<mapsto> ''abc'', ''STRAVA_CLIENT_SECRET'' \<mapsto> ''s3cret'']"
  have lib: "int_of_str lib0 ''abc'' = None" "int_of_str lib0 ''12345'' = Some 12345"
    by (simp_all add: lib0_def)
  have no_env: "refresh_token lib0 client0 ?rt (refresh_world Map.empty (Inr fresh_triple) NoFault)
      = (Inl ValueError, refresh_world Map.empty (Inr fresh_triple) NoFault)"
    using refresh_token_file_outcomes [of lib0 client0 ?rt
        "refresh_world Map.empty (Inr fresh_triple) NoFault"
        "fst (refresh_token lib0 client0 ?rt (refresh_world Map.empty (Inr fresh_triple) NoFault))"
        "snd (refresh_token lib0 client0 ?rt (refresh_world Map.empty (Inr fresh_triple) NoFault))"
        "''abc''" "''s3cret''" 0]
    by (simp add: refresh_world_fields prod_eq_iff)
  have bad_id: "refresh_token lib0 client0 ?rt (refresh_world ?abc (Inr fresh_triple) NoFault)
      = (Inl ValueError, refresh_world ?abc (Inr fresh_triple) NoFault)"
    using refresh_token_file_outcomes [of lib0 client0 ?rt
        "refresh_world ?abc (Inr fresh_triple) NoFault"
        "fst (refresh_token lib0 client0 ?rt (refresh_world ?abc (Inr fresh_triple) NoFault))"
        "snd (refresh_token lib0 client0 ?rt (refresh_world ?abc (Inr fresh_triple) NoFault))"
        "''abc''" "''s3cret''" 0] lib
    by (simp add: refresh_world_fields prod_eq_iff)
  have remote_fails:
    "fst (refresh_token lib0 client0 ?rt (refresh_world secrets_set (Inl RemoteFault) NoFault))
       = Inl RemoteFault"
    "files (snd (refresh_token lib0 client0 ?rt
        (refresh_world secrets_set (Inl RemoteFault) NoFault))) ''strava-token.json''
       = Some (JsonText (JObj (stored_tokens [])))"
    using refresh_token_file_outcomes [of lib0 client0 ?rt
        "refresh_world secrets_set (Inl RemoteFault) NoFault"
        "fst (refresh_token lib0 client0 ?rt (refresh_world secrets_set (Inl RemoteFault) NoFault))"
        "snd (refresh_token lib0 client0 ?rt (refresh_world secrets_set (Inl RemoteFault) NoFault))"
        "''12345''" "''s3cret''" 12345] lib
    by (simp_all add: refresh_world_fields secrets_set_fields)
  have open_fails:
    "fst (refresh_token lib0 client0 ?rt (refresh_world secrets_set (Inr fresh_triple) OpenFails))
       = Inl OSError"
    "files (snd (refresh_token lib0 client0 ?rt
        (refresh_world secrets_set (Inr fresh_triple) OpenFails))) ''strava-token.json''
       = Some (JsonText (JObj (stored_tokens [])))"
    using refresh_token_file_outcomes [of lib0 client0 ?rt
        "refresh_world secrets_set (Inr fresh_triple) OpenFails"
        "fst (refresh_token lib0 client0 ?rt (refresh_world secrets_set (Inr fresh_triple) OpenFails))"
        "snd (refresh_token lib0 client0 ?rt (refresh_world secrets_set (Inr fresh_triple) OpenFails))"
        "''12345''" "''s3cret''" 12345] lib
    by (simp_all add: refresh_world_fields secrets_set_fields)
  have dump_fails:
    "fst (refresh_token lib0 client0 ?rt
        (refresh_world secrets_set (Inr fresh_triple) (DumpFails ''{''))) = Inl OSError"
    "files (snd (refresh_token lib0 client0 ?rt
        (refresh_world secrets_set (Inr fresh_triple) (DumpFails ''{'')))) ''strava-token.json''
       = Some (RawText ''{'')"
    using refresh_token_file_outcomes [of lib0 client0 ?rt
        "refresh_world secrets_set (Inr fresh_triple) (DumpFails ''{'')"
        "fst (refresh_token lib0 client0 ?rt (refresh_world secrets_set (Inr fresh_triple) (DumpFails ''{'')))"
        "snd (refresh_token lib0 client0 ?rt (refresh_world secrets_set (Inr fresh_triple) (DumpFails ''{'')))"
        "''12345''" "''s3cret''" 12345] lib
    by (simp_all add: refresh_world_fields secrets_set_fields client0_def)
  have written:
    "fst (refresh_token lib0 client0 ?rt (refresh_world secrets_set (Inr fresh_triple) NoFault))
       = Inr (client0\<lparr>access_token := Some (JStr ''new-access'')\<rparr>)"
    "files (snd (refresh_token lib0 client0 ?rt
        (refresh_world secrets_set (Inr fresh_triple) NoFault))) ''strava-token.json''
       = Some (JsonText (JObj fresh_triple))"
    "calls (snd (refresh_token lib0 client0 ?rt
        (refresh_world secrets_set (Inr fresh_triple) NoFault)))
       = [(12345, ''s3cret'', JStr ''old-refresh'')]"
    using refresh_token_file_outcomes [of lib0 client0 ?rt
        "refresh_world secrets_set (Inr fresh_triple) NoFault"
        "fst (refresh_token lib0 client0 ?rt (refresh_world secrets_set (Inr fresh_triple) NoFault))"
        "snd (refresh_token lib0 client0 ?rt (refresh_world secrets_set (Inr fresh_triple) NoFault))"
        "''12345''" "''s3cret''" 12345] lib
    by (simp_all add: refresh_world_fields secrets_set_fields client0_def fresh_triple_def)
  from no_env bad_id remote_fails open_fails dump_fails written show ?thesis
    by simp
qed

text \<open>
  C1 as stated fails: when \<^verbatim>\<open>json.dump\<close> fails after the first character, the refresh
  ends in an error and the token file holds that one character: neither the previous
  contents nor the new triple, and not a JSON document.
\<close>

theorem failed_write_leaves_partial_file:
  "files (token_world [(''expires_at'', JInt 1700000100)] (DumpFails ''{''))
       ''strava-token.json'' =
     Some (JsonText (JObj (stored_tokens [(''expires_at'', JInt 1700000100)])))
   \<and> fst (load_and_set_token lib0 client0
        (token_world [(''expires_at'', JInt 1700000100)] (DumpFails ''{''))) = Inl OSError
   \<and> files (snd (load_and_set_token lib0 client0
        (token_world [(''expires_at'', JInt 1700000100)] (DumpFails ''{''))))
       ''strava-token.json'' = Some (RawText ''{'')
   \<and> json_load (RawText ''{'') = Inl JSONDecodeError"
  by (simp add: load_and_set_token_def refresh_token_def open_w_def json_dump_def Let_def
      lib0_def client0_def token_world_def world_with_def stored_tokens_def dict_get_def
      fresh_triple_def)

end
